theory Spec2Isabelle
  imports Complex_Main "HOL-Library.AList"
begin

section \<open>Numbers and three.js values\<close>

text \<open>
  JavaScript numbers are modelled as mathematical reals: rounding, infinities and NaN are
  outside the model. \<open>Vector3\<close> and \<open>Quaternion\<close> are the three.js value classes; the
  code only ever clones them or builds new ones, so they are plain values here.
\<close>

datatype Vector3 = Vector3 (vx: real) (vy: real) (vz: real)

datatype Quaternion = Quaternion (qx: real) (qy: real) (qz: real) (qw: real)

text \<open>\<open>Vector3.distanceTo\<close> of three.js: the Euclidean distance.\<close>

definition distanceTo :: "Vector3 \<Rightarrow> Vector3 \<Rightarrow> real" where
  "distanceTo a b = sqrt ((vx a - vx b)\<^sup>2 + (vy a - vy b)\<^sup>2 + (vz a - vz b)\<^sup>2)"

text \<open>
  The two three.js operations whose bodies are not part of the repository are taken as
  parameters: \<open>Quaternion.slerpQuaternions(qa, qb, t)\<close> and \<open>Vector3.applyQuaternion(q)\<close>.
\<close>

record Three =
  slerpQuaternions :: "Quaternion \<Rightarrow> Quaternion \<Rightarrow> real \<Rightarrow> Quaternion"
  applyQuaternion :: "Vector3 \<Rightarrow> Quaternion \<Rightarrow> Vector3"

section \<open>PoseFilter (src/core/PoseFilter.ts)\<close>

record PoseFilterOptions =
  positionSmoothingFactor :: real
  rotationSmoothingFactor :: real
  maxJitterThreshold :: real
  stabilizationTime :: real

record PoseFilter =
  options :: PoseFilterOptions
  lastPosition :: "Vector3 option"
  lastRotation :: "Quaternion option"
  velocityHistory :: "Vector3 list"
  stabilizationStartTime :: "real option"
  isStable :: bool

record FilterResult =
  position :: Vector3
  rotation :: Quaternion
  resultIsStable :: bool

definition defaultOptions :: PoseFilterOptions where
  "defaultOptions = \<lparr> positionSmoothingFactor = 8 / 10, rotationSmoothingFactor = 9 / 10,
     maxJitterThreshold = 1 / 100, stabilizationTime = 1000 \<rparr>"

text \<open>The constructor, with the options object already merged over the defaults.\<close>

definition newPoseFilter :: "PoseFilterOptions \<Rightarrow> PoseFilter" where
  "newPoseFilter opts = \<lparr> options = opts, lastPosition = None, lastRotation = None,
     velocityHistory = [], stabilizationStartTime = None, isStable = False \<rparr>"

definition smoothPosition :: "Vector3 \<Rightarrow> PoseFilter \<Rightarrow> Vector3" where
  "smoothPosition newPosition pf =
     (case lastPosition pf of
        None \<Rightarrow> newPosition
      | Some lp \<Rightarrow>
          (let factor = positionSmoothingFactor (options pf) in
           Vector3 (vx lp * factor + vx newPosition * (1 - factor))
                   (vy lp * factor + vy newPosition * (1 - factor))
                   (vz lp * factor + vz newPosition * (1 - factor))))"

definition smoothRotation :: "Three \<Rightarrow> Quaternion \<Rightarrow> PoseFilter \<Rightarrow> Quaternion" where
  "smoothRotation three newRotation pf =
     (case lastRotation pf of
        None \<Rightarrow> newRotation
      | Some lr \<Rightarrow> slerpQuaternions three newRotation lr (rotationSmoothingFactor (options pf)))"

text \<open>\<open>push\<close>, then \<open>shift\<close> once when more than ten entries are held.\<close>

definition updateVelocityHistory :: "real \<Rightarrow> PoseFilter \<Rightarrow> PoseFilter" where
  "updateVelocityHistory delta pf =
     (let h = velocityHistory pf @ [Vector3 delta 0 0] in
      pf\<lparr>velocityHistory := (if length h > 10 then tl h else h)\<rparr>)"

text \<open>
  \<open>!this.stabilizationStartTime\<close> is a truthiness test on \<open>number | undefined\<close>: it holds
  for \<open>undefined\<close> and also for the number \<open>0\<close>.
\<close>

definition falsyTime :: "real option \<Rightarrow> bool" where
  "falsyTime t = (case t of None \<Rightarrow> True | Some s \<Rightarrow> s = 0)"

text \<open>
  The \<open>reduce\<close> sums the \<open>x\<close> components from 0. On an empty history JavaScript divides
  0 by 0 and the comparison with the threshold is false; the model writes that case out.
\<close>

definition avgVelocity :: "PoseFilter \<Rightarrow> real" where
  "avgVelocity pf = foldl (\<lambda>sum v. sum + vx v) 0 (velocityHistory pf) / real (length (velocityHistory pf))"

definition updateStabilityState :: "real \<Rightarrow> real \<Rightarrow> PoseFilter \<Rightarrow> PoseFilter" where
  "updateStabilityState positionDelta currentTime pf =
     (let isLowJitter = positionDelta < maxJitterThreshold (options pf);
          isLowVelocity = (velocityHistory pf \<noteq> [] \<and> avgVelocity pf < maxJitterThreshold (options pf))
      in if isLowJitter \<and> isLowVelocity then
           (let start = (if falsyTime (stabilizationStartTime pf) then currentTime
                         else the (stabilizationStartTime pf));
                stabilizationDuration = currentTime - start
            in pf\<lparr>stabilizationStartTime := Some start,
                  isStable := (stabilizationDuration \<ge> stabilizationTime (options pf))\<rparr>)
         else pf\<lparr>stabilizationStartTime := None, isStable := False\<rparr>)"

text \<open>
  \<open>filter\<close>; \<open>now\<close> is the value \<open>performance.now()\<close> returns at the top of the call.
  \<open>smoothPosition\<close> and \<open>smoothRotation\<close> run on the state after the history update
  and before \<open>lastPosition\<close> is overwritten, as in the source.
\<close>

definition filter_pf :: "Three \<Rightarrow> real \<Rightarrow> Vector3 \<Rightarrow> Quaternion \<Rightarrow> PoseFilter \<Rightarrow> FilterResult \<times> PoseFilter" where
  "filter_pf three now pos rot pf =
     (case (lastPosition pf, lastRotation pf) of
        (Some lp, Some lr) \<Rightarrow>
          (let positionDelta = distanceTo pos lp;
               pf1 = updateVelocityHistory positionDelta pf;
               smoothedPosition = smoothPosition pos pf1;
               smoothedRotation = smoothRotation three rot pf1;
               pf2 = updateStabilityState positionDelta now pf1;
               pf3 = pf2\<lparr>lastPosition := Some smoothedPosition, lastRotation := Some smoothedRotation\<rparr>
           in (\<lparr>position = smoothedPosition, rotation = smoothedRotation, resultIsStable = isStable pf3\<rparr>, pf3))
      | _ \<Rightarrow>
          (\<lparr>position = pos, rotation = rot, resultIsStable = False\<rparr>,
           pf\<lparr>lastPosition := Some pos, lastRotation := Some rot, stabilizationStartTime := Some now\<rparr>))"

definition reset :: "PoseFilter \<Rightarrow> PoseFilter" where
  "reset pf = pf\<lparr>lastPosition := None, lastRotation := None, velocityHistory := [],
     stabilizationStartTime := None, isStable := False\<rparr>"

definition getStabilityState :: "PoseFilter \<Rightarrow> bool" where
  "getStabilityState pf = isStable pf"

text \<open>A stand-in for the two library operations, used only to evaluate concrete runs.\<close>

definition sampleThree :: Three where
  "sampleThree = \<lparr>
     slerpQuaternions = (\<lambda>qa qb t.
       Quaternion (qx qa * (1 - t) + qx qb * t) (qy qa * (1 - t) + qy qb * t)
                  (qz qa * (1 - t) + qz qb * t) (qw qa * (1 - t) + qw qb * t)),
     applyQuaternion = (\<lambda>v q.
       (let tx = 2 * (qy q * vz v - qz q * vy v);
            ty = 2 * (qz q * vx v - qx q * vz v);
            tz = 2 * (qx q * vy v - qy q * vx v)
        in Vector3 (vx v + qw q * tx + qy q * tz - qz q * ty)
                   (vy v + qw q * ty + qz q * tx - qx q * tz)
                   (vz v + qw q * tz + qx q * ty - qy q * tx))) \<rparr>"

subsection \<open>Runs of filter calls\<close>













section \<open>PlaneTracker (src/core/PlaneTracker.ts)\<close>

datatype TrackingState = NOT_TRACKING | LIMITED | TRACKING

datatype Orientation = horizontal | vertical

record Pose =
  pose_position :: Vector3
  pose_orientation :: Quaternion

text \<open>\<open>PlaneData\<close>; its field \<open>id\<close> is \<open>id_plane\<close> here.\<close>

record PlaneData =
  id_plane :: string
  pose :: Pose
  polygon :: "Vector3 list"
  orientation :: Orientation
  lastUpdate :: real

text \<open>
  \<open>PlaneData\<close> values are JavaScript objects: the map \<open>planes\<close> holds references to them and
  \<open>getDetectedPlanes\<close> hands the same references out. The model keeps them in a store
  \<open>heap\<close> indexed by references; \<open>nextRef\<close> is the next unused reference.
\<close>

type_synonym ref = nat

text \<open>
  One entry of \<open>frame.detectedPlanes\<close>, with everything the callback reads from the host:
  \<open>xrPlaneId\<close> is \<open>xrPlane.planeId\<close>, \<open>generatedId\<close> the string the template
  \<open>plane_${Date.now()}_${Math.random()}\<close> evaluates to, \<open>planePose\<close> the position and
  orientation three.js extracts from \<open>frame.getPose(...)\<close> (\<open>None\<close> when it returns null),
  \<open>extractedPolygon\<close> the result of \<open>extractPlanePolygon\<close>, and \<open>tFilter\<close>, \<open>tUpdate\<close> the two
  readings of \<open>performance.now()\<close> (inside \<open>filter\<close> and for \<open>lastUpdate\<close>).
\<close>

record XRPlane =
  xrPlaneId :: "string option"
  generatedId :: string
  planePose :: "(Vector3 \<times> Quaternion) option"
  extractedPolygon :: "Vector3 list"
  tFilter :: real
  tUpdate :: real

text \<open>
  An \<open>XRFrame\<close>: the detected planes (\<open>None\<close> when the property is missing), the number of
  hit-test results, and the readings of \<open>performance.now()\<close> in \<open>cleanupOldPlanes\<close> and in
  \<open>updateTrackingStability\<close>.
\<close>

record XRFrame =
  detectedPlanes :: "XRPlane list option"
  hitTestResultsLength :: nat
  tCleanup :: real
  tStability :: real

text \<open>
  The two callbacks are modelled by whether one is registered and by the log
  \<open>notifications\<close> of the calls made to them, in order.
\<close>

datatype Event = PlaneDetected ref | TrackingStateChanged TrackingState

record PlaneTracker =
  xrSession :: bool
  xrRefSpace :: bool
  hitTestSource :: bool
  planes :: "(string \<times> ref) list"
  heap :: "ref \<Rightarrow> PlaneData"
  nextRef :: ref
  poseFilter :: PoseFilter
  trackingState :: TrackingState
  onPlaneDetectedCallback :: bool
  onTrackingStateChangedCallback :: bool
  notifications :: "Event list"

definition emptyPlaneData :: PlaneData where
  "emptyPlaneData = \<lparr> id_plane = [], pose = \<lparr>pose_position = Vector3 0 0 0,
     pose_orientation = Quaternion 0 0 0 1\<rparr>, polygon = [], orientation = horizontal, lastUpdate = 0 \<rparr>"

text \<open>The constructor: one \<open>PoseFilter\<close> with default options for the whole tracker.\<close>

definition newPlaneTracker :: PlaneTracker where
  "newPlaneTracker = \<lparr> xrSession = False, xrRefSpace = False, hitTestSource = False,
     planes = [], heap = (\<lambda>_. emptyPlaneData), nextRef = 0,
     poseFilter = newPoseFilter defaultOptions, trackingState = NOT_TRACKING,
     onPlaneDetectedCallback = False, onTrackingStateChangedCallback = False,
     notifications = [] \<rparr>"

definition updateTrackingState :: "TrackingState \<Rightarrow> PlaneTracker \<Rightarrow> PlaneTracker" where
  "updateTrackingState newState st =
     (if trackingState st \<noteq> newState then
        st\<lparr>trackingState := newState,
           notifications := notifications st @
             (if onTrackingStateChangedCallback st then [TrackingStateChanged newState] else [])\<rparr>
      else st)"

text \<open>
  The success path of \<open>initializeXR\<close>: the session and the reference space are obtained,
  \<open>hitTestSupported\<close> says whether \<open>requestHitTestSource\<close> succeeded.
\<close>

definition initializeXR :: "bool \<Rightarrow> PlaneTracker \<Rightarrow> PlaneTracker" where
  "initializeXR hitTestSupported st =
     updateTrackingState LIMITED
       (st\<lparr>xrSession := True, xrRefSpace := True, hitTestSource := hitTestSupported\<rparr>)"

text \<open>\<open>xrPlane.planeId || generated\<close>: a missing or empty \<open>planeId\<close> is falsy.\<close>

definition resolvePlaneId :: "XRPlane \<Rightarrow> string" where
  "resolvePlaneId xrPlane =
     (case xrPlaneId xrPlane of
        None \<Rightarrow> generatedId xrPlane
      | Some s \<Rightarrow> if s = [] then generatedId xrPlane else s)"

text \<open>The body of the \<open>forEach\<close> callback in \<open>updatePlaneDetection\<close>.\<close>

definition ingestPlane :: "Three \<Rightarrow> XRPlane \<Rightarrow> PlaneTracker \<Rightarrow> PlaneTracker" where
  "ingestPlane three xrPlane st =
     (let planeId = resolvePlaneId xrPlane in
      case planePose xrPlane of
        None \<Rightarrow> st
      | Some (pos, orient) \<Rightarrow>
          (let (filtered, pf) = filter_pf three (tFilter xrPlane) pos orient (poseFilter st);
               normal = applyQuaternion three (Vector3 0 0 1) (rotation filtered);
               isVertical = (\<bar>vy normal\<bar> < 5 / 10);
               planeData = \<lparr> id_plane = planeId,
                 pose = \<lparr>pose_position = position filtered, pose_orientation = rotation filtered\<rparr>,
                 polygon = extractedPolygon xrPlane,
                 orientation = (if isVertical then vertical else horizontal),
                 lastUpdate = tUpdate xrPlane \<rparr>;
               r = nextRef st;
               st1 = st\<lparr>poseFilter := pf, heap := (heap st)(r := planeData), nextRef := Suc r\<rparr>
           in case map_of (planes st) planeId of
                None \<Rightarrow>
                  st1\<lparr>planes := AList.update planeId r (planes st),
                      notifications := notifications st @
                        (if onPlaneDetectedCallback st then [PlaneDetected r] else [])\<rparr>
              | Some existingPlane \<Rightarrow>
                  st1\<lparr>planes := AList.update planeId r (planes st)\<rparr>))"

text \<open>The loop over \<open>this.planes.entries()\<close> deletes exactly the entries it finds too old.\<close>

definition cleanupOldPlanes :: "real \<Rightarrow> PlaneTracker \<Rightarrow> PlaneTracker" where
  "cleanupOldPlanes now st =
     (let timeout = 10000 in
      st\<lparr>planes := filter (\<lambda>(i, r). \<not> (now - lastUpdate (heap st r) > timeout)) (planes st)\<rparr>)"

definition updatePlaneDetection :: "Three \<Rightarrow> XRFrame \<Rightarrow> PlaneTracker \<Rightarrow> PlaneTracker" where
  "updatePlaneDetection three frame st =
     (case detectedPlanes frame of
        None \<Rightarrow> st
      | Some ps \<Rightarrow> cleanupOldPlanes (tCleanup frame) (foldl (\<lambda>s xrPlane. ingestPlane three xrPlane s) st ps))"

definition updateHitTest :: "XRFrame \<Rightarrow> PlaneTracker \<Rightarrow> PlaneTracker" where
  "updateHitTest frame st =
     (if \<not> hitTestSource st then st
      else if hitTestResultsLength frame > 0 then updateTrackingState TRACKING st
      else updateTrackingState LIMITED st)"

definition activePlanes :: "real \<Rightarrow> PlaneTracker \<Rightarrow> ref list" where
  "activePlanes now st = filter (\<lambda>r. now - lastUpdate (heap st r) < 5000) (map snd (planes st))"

definition updateTrackingStability :: "real \<Rightarrow> PlaneTracker \<Rightarrow> PlaneTracker" where
  "updateTrackingStability now st =
     (let activeePlanes = activePlanes now st in
      if length activeePlanes = 0 then updateTrackingState NOT_TRACKING st
      else if list_ex (\<lambda>r. orientation (heap st r) = vertical) activeePlanes
        then updateTrackingState TRACKING st
      else updateTrackingState LIMITED st)"

text \<open>
  \<open>update\<close>, one tracking tick. The \<open>catch\<close> branch runs only when the host API throws,
  which the frame record does not model.
\<close>

definition update :: "Three \<Rightarrow> XRFrame \<Rightarrow> PlaneTracker \<Rightarrow> PlaneTracker" where
  "update three frame st =
     (if \<not> xrSession st \<or> \<not> xrRefSpace st then st
      else updateTrackingStability (tStability frame)
             (updateHitTest frame (updatePlaneDetection three frame st)))"

definition onSessionEnd :: "PlaneTracker \<Rightarrow> PlaneTracker" where
  "onSessionEnd st =
     updateTrackingState NOT_TRACKING
       (st\<lparr>xrSession := False, xrRefSpace := False, hitTestSource := False, planes := []\<rparr>)"

text \<open>\<open>Array.from(this.planes.values())\<close>: a new array of the stored references.\<close>

definition getDetectedPlanes :: "PlaneTracker \<Rightarrow> ref list" where
  "getDetectedPlanes st = map snd (planes st)"

definition getTrackingState :: "PlaneTracker \<Rightarrow> TrackingState" where
  "getTrackingState st = trackingState st"



text \<open>What a caller reads through the array \<open>getDetectedPlanes\<close> returns.\<close>

definition detectedPlaneData :: "PlaneTracker \<Rightarrow> PlaneData list" where
  "detectedPlaneData st = map (heap st) (getDetectedPlanes st)"

text \<open>Concrete plane records and a tracker holding two of them, for evaluating examples.\<close>

definition planeAt :: "string \<Rightarrow> Orientation \<Rightarrow> real \<Rightarrow> PlaneData" where
  "planeAt i orient t = \<lparr> id_plane = i, pose = \<lparr>pose_position = Vector3 0 0 0,
     pose_orientation = Quaternion 0 0 0 1\<rparr>, polygon = [], orientation = orient, lastUpdate = t \<rparr>"

definition trackerWith :: "PlaneData \<Rightarrow> PlaneData \<Rightarrow> PlaneTracker" where
  "trackerWith p0 p1 = newPlaneTracker\<lparr> xrSession := True, xrRefSpace := True, hitTestSource := True,
     planes := [(id_plane p0, 0), (id_plane p1, 1)],
     heap := (\<lambda>r. if r = 0 then p0 else if r = 1 then p1 else emptyPlaneData),
     nextRef := 2, onTrackingStateChangedCallback := True \<rparr>"

definition wallSample :: "string \<Rightarrow> Vector3 \<Rightarrow> real \<Rightarrow> XRPlane" where
  "wallSample i pos t = \<lparr> xrPlaneId = Some i, generatedId = ''plane_0_0'',
     planePose = Some (pos, Quaternion 0 0 0 1), extractedPolygon = [], tFilter = t, tUpdate = t \<rparr>"

text \<open>A frame without plane data and with \<open>n\<close> hit-test results.\<close>

definition hitFrame :: "nat \<Rightarrow> real \<Rightarrow> XRFrame" where
  "hitFrame n t = \<lparr> detectedPlanes = None, hitTestResultsLength = n, tCleanup = t, tStability = t \<rparr>"

text \<open>A frame carrying the given plane samples and no hit-test result.\<close>

definition planesFrame :: "XRPlane list \<Rightarrow> real \<Rightarrow> XRFrame" where
  "planesFrame ps t = \<lparr> detectedPlanes = Some ps, hitTestResultsLength = 0, tCleanup = t, tStability = t \<rparr>"

text \<open>The pose the tracker currently stores for a surface identifier.\<close>

definition storedPose :: "string \<Rightarrow> PlaneTracker \<Rightarrow> Pose option" where
  "storedPose i st = map_option (\<lambda>r. pose (heap st r)) (map_of (planes st) i)"

subsection \<open>Runs of tracker operations and the reported state changes\<close>



text \<open>The states passed to the "tracking state changed" callback, in order.\<close>

fun stateChanges :: "Event list \<Rightarrow> TrackingState list" where
  "stateChanges [] = []"
| "stateChanges (TrackingStateChanged s # es) = s # stateChanges es"
| "stateChanges (PlaneDetected r # es) = stateChanges es"



subsection \<open>What a caller can do with the array returned by \<open>getDetectedPlanes\<close>\<close>






section \<open>FramerlyAREngine: the placed-object map (src/core/FramerlyAREngine.ts)\<close>

text \<open>
  A placed object is a JavaScript object; \<open>{ ...object, ...updates }\<close> copies own properties
  by name, so an object is modelled as a finite map from property names to values and the
  spread as map override. A property explicitly set to \<open>undefined\<close> is \<open>Some Undefined\<close>.
\<close>

datatype Value = Undefined | Str string | Num real | Bool bool | Vec Vector3 | Eul real real real

type_synonym ARObject = "string \<rightharpoonup> Value"

datatype Error = Error string

text \<open>The rendering collaborator is modelled by the log of the calls made to it.\<close>

datatype RendererCall = UpdateFrame ARObject | UpdateNeon ARObject | RemoveObject string Value

record FramerlyAREngine =
  arObjects :: "(string \<times> ARObject) list"
  rendererCalls :: "RendererCall list"

definition getProp :: "ARObject \<Rightarrow> string \<Rightarrow> Value" where
  "getProp object name = (case object name of None \<Rightarrow> Undefined | Some v \<Rightarrow> v)"

definition updateObject :: "string \<Rightarrow> ARObject \<Rightarrow> FramerlyAREngine \<Rightarrow> Error + FramerlyAREngine" where
  "updateObject objectId updates e =
     (case map_of (arObjects e) objectId of
        None \<Rightarrow> Inl (Error (''Object with ID '' @ objectId @ '' not found''))
      | Some object \<Rightarrow>
          (let updatedObject = object ++ updates in
           Inr (e\<lparr>arObjects := AList.update objectId updatedObject (arObjects e),
                  rendererCalls := rendererCalls e @
                    [if getProp object ''type'' = Str ''frame'' then UpdateFrame updatedObject
                     else UpdateNeon updatedObject]\<rparr>)))"

definition removeObject :: "string \<Rightarrow> FramerlyAREngine \<Rightarrow> FramerlyAREngine" where
  "removeObject objectId e =
     (case map_of (arObjects e) objectId of
        None \<Rightarrow> e
      | Some object \<Rightarrow>
          e\<lparr>rendererCalls := rendererCalls e @ [RemoveObject objectId (getProp object ''type'')],
            arObjects := AList.delete objectId (arObjects e)\<rparr>)"

definition getPlacedObjects :: "FramerlyAREngine \<Rightarrow> ARObject list" where
  "getPlacedObjects e = map snd (arObjects e)"

text \<open>A frame object and an engine holding it and a neon sign, for evaluating examples.\<close>

definition frameObject :: "string \<Rightarrow> ARObject" where
  "frameObject i = [''id'' \<mapsto> Str i, ''type'' \<mapsto> Str ''frame'', ''position'' \<mapsto> Vec (Vector3 0 1 (-2)),
     ''frameColor'' \<mapsto> Str ''#8B4513'', ''width'' \<mapsto> Num (4 / 10)]"

definition neonObject :: "string \<Rightarrow> ARObject" where
  "neonObject i = [''id'' \<mapsto> Str i, ''type'' \<mapsto> Str ''neon'', ''position'' \<mapsto> Vec (Vector3 1 1 (-2)),
     ''text'' \<mapsto> Str ''OPEN'', ''glowIntensity'' \<mapsto> Num 1]"

definition engineWith :: "string \<Rightarrow> string \<Rightarrow> FramerlyAREngine" where
  "engineWith i j = \<lparr> arObjects = [(i, frameObject i), (j, neonObject j)], rendererCalls = [] \<rparr>"

section \<open>Facts about PoseFilter\<close>


lemma filter_pf_lastPosition:
  "lastPosition (snd (filter_pf three now pos rot pf)) = Some (position (fst (filter_pf three now pos rot pf)))"
  by (simp add: filter_pf_def Let_def split: option.splits)






section \<open>Facts about PlaneTracker\<close>

lemma trackingState_updateTrackingState [simp]:
  "trackingState (updateTrackingState newState st) = newState"
  by (simp add: updateTrackingState_def)

lemma planes_updateTrackingState [simp]:
  "planes (updateTrackingState newState st) = planes st"
  by (simp add: updateTrackingState_def)

lemma heap_updateTrackingState [simp]:
  "heap (updateTrackingState newState st) = heap st"
  by (simp add: updateTrackingState_def)

lemma poseFilter_updateTrackingState [simp]:
  "poseFilter (updateTrackingState newState st) = poseFilter st"
  by (simp add: updateTrackingState_def)

lemma trackingState_updateTrackingStability:
  "trackingState (updateTrackingStability now st) =
     (if activePlanes now st = [] then NOT_TRACKING
      else if (\<exists>r \<in> set (activePlanes now st). orientation (heap st r) = vertical) then TRACKING
      else LIMITED)"
  by (simp add: updateTrackingStability_def Let_def list_ex_iff)

text \<open>
  C4. \<open>updateTrackingStability\<close> (the recompute step) leaves \<open>not_tracking\<close> when no surface is
  active (\<open>now - lastUpdate < 5000\<close>), \<open>tracking\<close> when some active surface is vertical and
  \<open>limited\<close> otherwise; two trackers with the same set of active surface records get the same
  state, whatever else differs between them.
\<close>

theorem recompute_tracking_state_of_active_set:
  "(set (activePlanes now st) = {r \<in> set (getDetectedPlanes st). now - lastUpdate (heap st r) < 5000})
   \<and> (activePlanes now st = [] \<longrightarrow> getTrackingState (updateTrackingStability now st) = NOT_TRACKING)
   \<and> ((\<exists>r \<in> set (activePlanes now st). orientation (heap st r) = vertical)
        \<longrightarrow> getTrackingState (updateTrackingStability now st) = TRACKING)
   \<and> (activePlanes now st \<noteq> [] \<and> (\<forall>r \<in> set (activePlanes now st). orientation (heap st r) \<noteq> vertical)
        \<longrightarrow> getTrackingState (updateTrackingStability now st) = LIMITED)
   \<and> (\<forall>st'. heap st' ` set (activePlanes now st') = heap st ` set (activePlanes now st)
        \<longrightarrow> getTrackingState (updateTrackingStability now st') = getTrackingState (updateTrackingStability now st))"
proof -
  have members: "set (activePlanes now st) = {r \<in> set (getDetectedPlanes st). now - lastUpdate (heap st r) < 5000}"
    by (auto simp: activePlanes_def getDetectedPlanes_def)
  have none: "activePlanes now st = [] \<longrightarrow> getTrackingState (updateTrackingStability now st) = NOT_TRACKING"
    by (simp add: getTrackingState_def trackingState_updateTrackingStability)
  have some_vertical: "(\<exists>r \<in> set (activePlanes now st). orientation (heap st r) = vertical)
        \<longrightarrow> getTrackingState (updateTrackingStability now st) = TRACKING"
    by (auto simp: getTrackingState_def trackingState_updateTrackingStability)
  have no_vertical: "activePlanes now st \<noteq> [] \<and> (\<forall>r \<in> set (activePlanes now st). orientation (heap st r) \<noteq> vertical)
        \<longrightarrow> getTrackingState (updateTrackingStability now st) = LIMITED"
    by (auto simp: getTrackingState_def trackingState_updateTrackingStability)
  have pure: "getTrackingState (updateTrackingStability now st') = getTrackingState (updateTrackingStability now st)"
    if same: "heap st' ` set (activePlanes now st') = heap st ` set (activePlanes now st)" for st'
  proof -
    have empty_iff: "activePlanes now st' = [] \<longleftrightarrow> activePlanes now st = []"
      using same by (metis image_is_empty set_empty)
    have "(\<exists>r \<in> set (activePlanes now st'). orientation (heap st' r) = vertical)
        \<longleftrightarrow> (\<exists>p \<in> heap st' ` set (activePlanes now st'). orientation p = vertical)"
      by blast
    also have "\<dots> \<longleftrightarrow> (\<exists>p \<in> heap st ` set (activePlanes now st). orientation p = vertical)"
      by (simp only: same)
    also have "\<dots> \<longleftrightarrow> (\<exists>r \<in> set (activePlanes now st). orientation (heap st r) = vertical)"
      by blast
    finally show ?thesis
      using empty_iff by (simp add: getTrackingState_def trackingState_updateTrackingStability)
  qed
  show ?thesis
    using members none some_vertical no_vertical pure by blast
qed

lemma planes_trackerWith [simp]:
  "planes (trackerWith p0 p1) = [(id_plane p0, 0), (id_plane p1, 1)]"
  by (simp add: trackerWith_def)

lemma heap_trackerWith [simp]:
  "heap (trackerWith p0 p1) 0 = p0" "heap (trackerWith p0 p1) (Suc 0) = p1"
  by (simp_all add: trackerWith_def)

lemma activePlanes_trackerWith:
  "activePlanes now (trackerWith p0 p1) =
     (if now - lastUpdate p0 < 5000 then [0] else []) @ (if now - lastUpdate p1 < 5000 then [1] else [])"
  by (simp add: activePlanes_def)

theorem recompute_tracking_state_of_active_set_witness:
  "activePlanes 12000 (trackerWith (planeAt ''p1'' vertical 0) (planeAt ''p2'' vertical 500)) = []
   \<and> getTrackingState (updateTrackingStability 12000
         (trackerWith (planeAt ''p1'' vertical 0) (planeAt ''p2'' vertical 500))) = NOT_TRACKING
   \<and> getTrackingState (updateTrackingStability 6000
         (trackerWith (planeAt ''p1'' vertical 2000) (planeAt ''p2'' horizontal 0))) = TRACKING
   \<and> getTrackingState (updateTrackingStability 6000
         (trackerWith (planeAt ''p1'' horizontal 2000) (planeAt ''p2'' vertical 0))) = LIMITED
   \<and> getTrackingState (updateTrackingStability 6000
         ((trackerWith (planeAt ''p1'' horizontal 2000) (planeAt ''p3'' horizontal 900))\<lparr>trackingState := TRACKING\<rparr>))
       = LIMITED"
proof -
  let ?none = "trackerWith (planeAt ''p1'' vertical 0) (planeAt ''p2'' vertical 500)"
  let ?wall = "trackerWith (planeAt ''p1'' vertical 2000) (planeAt ''p2'' horizontal 0)"
  let ?floor = "trackerWith (planeAt ''p1'' horizontal 2000) (planeAt ''p2'' vertical 0)"
  let ?other = "(trackerWith (planeAt ''p1'' horizontal 2000) (planeAt ''p3'' horizontal 900))\<lparr>trackingState := TRACKING\<rparr>"
  have h_none: "activePlanes 12000 ?none = []"
    by (simp add: activePlanes_trackerWith planeAt_def)
  have a_wall: "activePlanes 6000 ?wall = [0]"
    by (simp add: activePlanes_trackerWith planeAt_def)
  have a_floor: "activePlanes 6000 ?floor = [0]"
    by (simp add: activePlanes_trackerWith planeAt_def)
  have a_other: "activePlanes 6000 ?other = [0]"
    by (simp add: activePlanes_def trackerWith_def planeAt_def)
  have h_wall: "\<exists>r \<in> set (activePlanes 6000 ?wall). orientation (heap ?wall r) = vertical"
    unfolding a_wall by (simp add: planeAt_def)
  have h_floor: "activePlanes 6000 ?floor \<noteq> [] \<and>
      (\<forall>r \<in> set (activePlanes 6000 ?floor). orientation (heap ?floor r) \<noteq> vertical)"
    unfolding a_floor by (simp add: planeAt_def)
  have h_same: "heap ?other ` set (activePlanes 6000 ?other) = heap ?floor ` set (activePlanes 6000 ?floor)"
    unfolding a_floor a_other by (simp add: trackerWith_def)
  from recompute_tracking_state_of_active_set [of 12000 ?none] h_none
  have r1: "getTrackingState (updateTrackingStability 12000 ?none) = NOT_TRACKING" by blast
  from recompute_tracking_state_of_active_set [of 6000 ?wall] h_wall
  have r2: "getTrackingState (updateTrackingStability 6000 ?wall) = TRACKING" by blast
  from recompute_tracking_state_of_active_set [of 6000 ?floor] h_floor
  have r3: "getTrackingState (updateTrackingStability 6000 ?floor) = LIMITED" by blast
  from recompute_tracking_state_of_active_set [of 6000 ?floor] h_same
  have r4: "getTrackingState (updateTrackingStability 6000 ?other)
      = getTrackingState (updateTrackingStability 6000 ?floor)" by blast
  show ?thesis using h_none r1 r2 r3 r4 by simp
qed

lemma getDetectedPlanes_cleanupOldPlanes:
  "getDetectedPlanes (cleanupOldPlanes now st) =
     filter (\<lambda>r. \<not> (now - lastUpdate (heap st r) > 10000)) (getDetectedPlanes st)"
proof -
  have "map snd (filter (\<lambda>(i, r). \<not> (now - lastUpdate (h r) > 10000)) ps)
      = filter (\<lambda>r. \<not> (now - lastUpdate (h r) > 10000)) (map snd ps)" for h and ps :: "(string \<times> ref) list"
    by (induction ps) auto
  then show ?thesis
    by (simp add: getDetectedPlanes_def cleanupOldPlanes_def)
qed

lemma heap_cleanupOldPlanes [simp]: "heap (cleanupOldPlanes now st) = heap st"
  by (simp add: cleanupOldPlanes_def)

lemma activePlanes_without:
  assumes "\<not> (now - lastUpdate (heap st r) < 5000)"
  shows "activePlanes now (st\<lparr>planes := filter (\<lambda>(i, r'). r' \<noteq> r) (planes st)\<rparr>) = activePlanes now st"
proof -
  have "filter (\<lambda>r'. now - lastUpdate (heap st r') < 5000) (map snd (filter (\<lambda>(i, r'). r' \<noteq> r) ps))
      = filter (\<lambda>r'. now - lastUpdate (heap st r') < 5000) (map snd ps)"
    for ps :: "(string \<times> ref) list"
    using assms by (induction ps) auto
  then show ?thesis
    by (simp add: activePlanes_def)
qed

text \<open>
  C6. After \<open>cleanupOldPlanes\<close> (the sweep) at time \<open>now\<close>, a surface with
  \<open>now - lastUpdate > 10000\<close> is no longer returned by \<open>getDetectedPlanes\<close>. A surface with
  \<open>5000 < now - lastUpdate \<le> 10000\<close> is still returned, with its record unchanged, but it is not
  among the active surfaces and the tracking state computed at \<open>now\<close> is the one computed
  without it.
\<close>

theorem stale_surfaces_swept_inactive_surfaces_kept:
  "(\<forall>r \<in> set (getDetectedPlanes st). now - lastUpdate (heap st r) > 10000
       \<longrightarrow> r \<notin> set (getDetectedPlanes (cleanupOldPlanes now st)))
   \<and> (\<forall>r \<in> set (getDetectedPlanes st).
         5000 < now - lastUpdate (heap st r) \<and> now - lastUpdate (heap st r) \<le> 10000
       \<longrightarrow> r \<in> set (getDetectedPlanes (cleanupOldPlanes now st))
         \<and> heap (cleanupOldPlanes now st) r = heap st r
         \<and> r \<notin> set (activePlanes now st)
         \<and> r \<notin> set (activePlanes now (cleanupOldPlanes now st))
         \<and> getTrackingState (updateTrackingStability now st)
             = getTrackingState (updateTrackingStability now
                 (st\<lparr>planes := filter (\<lambda>(i, r'). r' \<noteq> r) (planes st)\<rparr>)))"
proof -
  have stale: "r \<notin> set (getDetectedPlanes (cleanupOldPlanes now st))"
    if "now - lastUpdate (heap st r) > 10000" for r
    using that by (simp add: getDetectedPlanes_cleanupOldPlanes)
  have kept: "r \<in> set (getDetectedPlanes (cleanupOldPlanes now st))"
    if "r \<in> set (getDetectedPlanes st)" and "now - lastUpdate (heap st r) \<le> 10000" for r
    using that by (simp add: getDetectedPlanes_cleanupOldPlanes)
  have inactive: "r \<notin> set (activePlanes now st) \<and> r \<notin> set (activePlanes now (cleanupOldPlanes now st))"
    if "5000 < now - lastUpdate (heap st r)" for r
    using that by (simp add: activePlanes_def)
  have same_state: "getTrackingState (updateTrackingStability now st)
             = getTrackingState (updateTrackingStability now
                 (st\<lparr>planes := filter (\<lambda>(i, r'). r' \<noteq> r) (planes st)\<rparr>))"
    if "5000 < now - lastUpdate (heap st r)" for r
  proof -
    have "\<not> (now - lastUpdate (heap st r) < 5000)" using that by simp
    from activePlanes_without [OF this] show ?thesis
      by (simp add: getTrackingState_def trackingState_updateTrackingStability)
  qed
  show ?thesis
    using stale kept inactive same_state by simp
qed

theorem stale_surfaces_swept_inactive_surfaces_kept_witness:
  "getDetectedPlanes (trackerWith (planeAt ''old'' vertical 0) (planeAt ''idle'' vertical 3000)) = [0, 1]
   \<and> 10500 - lastUpdate (planeAt ''old'' vertical 0) > 10000
   \<and> 0 \<notin> set (getDetectedPlanes (cleanupOldPlanes 10500
         (trackerWith (planeAt ''old'' vertical 0) (planeAt ''idle'' vertical 3000))))
   \<and> 5000 < 10500 - lastUpdate (planeAt ''idle'' vertical 3000)
   \<and> 10500 - lastUpdate (planeAt ''idle'' vertical 3000) \<le> 10000
   \<and> 1 \<in> set (getDetectedPlanes (cleanupOldPlanes 10500
         (trackerWith (planeAt ''old'' vertical 0) (planeAt ''idle'' vertical 3000))))
   \<and> 1 \<notin> set (activePlanes 10500
         (trackerWith (planeAt ''old'' vertical 0) (planeAt ''idle'' vertical 3000)))"
proof -
  let ?st = "trackerWith (planeAt ''old'' vertical 0) (planeAt ''idle'' vertical 3000)"
  have dp: "getDetectedPlanes ?st = [0, 1]"
    by (simp add: getDetectedPlanes_def)
  have m0: "0 \<in> set (getDetectedPlanes ?st)" and m1: "1 \<in> set (getDetectedPlanes ?st)"
    by (simp_all add: dp)
  have old: "10500 - lastUpdate (heap ?st 0) > 10000"
    by (simp add: planeAt_def)
  have idle: "5000 < 10500 - lastUpdate (heap ?st 1) \<and> 10500 - lastUpdate (heap ?st 1) \<le> 10000"
    by (simp add: planeAt_def)
  from stale_surfaces_swept_inactive_surfaces_kept [of ?st 10500] m0 old
  have r0: "0 \<notin> set (getDetectedPlanes (cleanupOldPlanes 10500 ?st))" by blast
  from stale_surfaces_swept_inactive_surfaces_kept [of ?st 10500] m1 idle
  have r1: "1 \<in> set (getDetectedPlanes (cleanupOldPlanes 10500 ?st)) \<and> 1 \<notin> set (activePlanes 10500 ?st)"
    by blast
  show ?thesis using dp old idle r0 r1 by simp
qed

subsection \<open>Tracking-state changes and their notifications\<close>

lemma stateChanges_append: "stateChanges (es @ fs) = stateChanges es @ stateChanges fs"
  by (induction es rule: stateChanges.induct) simp_all





lemma callback_updateTrackingState [simp]:
  "onTrackingStateChangedCallback (updateTrackingState newState st) = onTrackingStateChangedCallback st"
  by (simp add: updateTrackingState_def)

lemma ingestPlane_tracking:
  "trackingState (ingestPlane three xrPlane st) = trackingState st
   \<and> stateChanges (notifications (ingestPlane three xrPlane st)) = stateChanges (notifications st)
   \<and> onTrackingStateChangedCallback (ingestPlane three xrPlane st) = onTrackingStateChangedCallback st"
  by (simp add: ingestPlane_def Let_def stateChanges_append split: option.splits prod.splits)

lemma ingestAll_tracking:
  "trackingState (foldl (\<lambda>s xrPlane. ingestPlane three xrPlane s) st ps) = trackingState st
   \<and> stateChanges (notifications (foldl (\<lambda>s xrPlane. ingestPlane three xrPlane s) st ps))
       = stateChanges (notifications st)
   \<and> onTrackingStateChangedCallback (foldl (\<lambda>s xrPlane. ingestPlane three xrPlane s) st ps)
       = onTrackingStateChangedCallback st"
  by (induction ps arbitrary: st) (simp_all add: ingestPlane_tracking)

lemma updatePlaneDetection_tracking:
  "trackingState (updatePlaneDetection three frame st) = trackingState st
   \<and> stateChanges (notifications (updatePlaneDetection three frame st)) = stateChanges (notifications st)
   \<and> onTrackingStateChangedCallback (updatePlaneDetection three frame st) = onTrackingStateChangedCallback st"
  by (simp add: updatePlaneDetection_def cleanupOldPlanes_def ingestAll_tracking split: option.splits)



lemma callback_updateHitTest [simp]:
  "onTrackingStateChangedCallback (updateHitTest frame st) = onTrackingStateChangedCallback st"
  by (simp add: updateHitTest_def)

lemma callback_updateTrackingStability [simp]:
  "onTrackingStateChangedCallback (updateTrackingStability now st) = onTrackingStateChangedCallback st"
  by (simp add: updateTrackingStability_def Let_def)


lemma callback_update [simp]:
  "onTrackingStateChangedCallback (update three frame st) = onTrackingStateChangedCallback st"
  by (simp add: update_def updatePlaneDetection_tracking)







subsection \<open>Session end\<close>

text \<open>
  C7 (as amended). Session end empties the surface map, drops the session handles and sets
  the tracking state to \<open>not_tracking\<close>; the registered callback is invoked, once, exactly
  when the state held before was different. Afterwards the accessors show no surface and a
  further tick leaves the tracker as it is.
\<close>

theorem session_end_clears_surfaces:
  "planes (onSessionEnd st) = []
   \<and> getDetectedPlanes (onSessionEnd st) = []
   \<and> detectedPlaneData (onSessionEnd st) = []
   \<and> getTrackingState (onSessionEnd st) = NOT_TRACKING
   \<and> \<not> xrSession (onSessionEnd st) \<and> \<not> xrRefSpace (onSessionEnd st) \<and> \<not> hitTestSource (onSessionEnd st)
   \<and> notifications (onSessionEnd st) = notifications st @
        (if trackingState st \<noteq> NOT_TRACKING \<and> onTrackingStateChangedCallback st
         then [TrackingStateChanged NOT_TRACKING] else [])
   \<and> update three frame (onSessionEnd st) = onSessionEnd st"
  by (simp add: onSessionEnd_def getDetectedPlanes_def detectedPlaneData_def getTrackingState_def
      updateTrackingState_def update_def)

theorem session_end_clears_surfaces_witness:
  "getDetectedPlanes (trackerWith (planeAt ''p1'' vertical 0) (planeAt ''p2'' horizontal 10)) = [0, 1]
   \<and> getDetectedPlanes (onSessionEnd ((trackerWith (planeAt ''p1'' vertical 0) (planeAt ''p2'' horizontal 10))
         \<lparr>trackingState := TRACKING\<rparr>)) = []
   \<and> notifications (onSessionEnd ((trackerWith (planeAt ''p1'' vertical 0) (planeAt ''p2'' horizontal 10))
         \<lparr>trackingState := TRACKING\<rparr>)) = [TrackingStateChanged NOT_TRACKING]
   \<and> notifications (onSessionEnd (trackerWith (planeAt ''p1'' vertical 0) (planeAt ''p2'' horizontal 10))) = []"
  using session_end_clears_surfaces
      [of "(trackerWith (planeAt ''p1'' vertical 0) (planeAt ''p2'' horizontal 10))\<lparr>trackingState := TRACKING\<rparr>"
          sampleThree "hitFrame 0 0"]
    session_end_clears_surfaces
      [of "trackerWith (planeAt ''p1'' vertical 0) (planeAt ''p2'' horizontal 10)" sampleThree "hitFrame 0 0"]
  by (simp add: getDetectedPlanes_def) (simp add: trackerWith_def newPlaneTracker_def)

lemmas run_defs = ingestPlane_def wallSample_def initializeXR_def newPlaneTracker_def
  resolvePlaneId_def filter_pf_def newPoseFilter_def updateTrackingState_def sampleThree_def Let_def
  onSessionEnd_def storedPose_def smoothPosition_def smoothRotation_def updateVelocityHistory_def
  updateStabilityState_def defaultOptions_def distanceTo_def avgVelocity_def falsyTime_def
  updatePlaneDetection_def cleanupOldPlanes_def planesFrame_def

text \<open>
  C7 as first worded fails in its last part: session end does not touch the filter. A
  surface ingested at \<open>(1,0,0)\<close> before session end still pulls the first sample after it,
  raw \<open>(0,0,0)\<close>, to \<open>(0.8,0,0)\<close>; on a fresh tracker the same sample is stored unsmoothed.
\<close>

theorem session_end_keeps_filter_state_counterexample:
  "lastPosition (poseFilter (onSessionEnd
      (ingestPlane sampleThree (wallSample ''a'' (Vector3 1 0 0) 0) (initializeXR True newPlaneTracker))))
     = Some (Vector3 1 0 0)
   \<and> map_option pose_position (storedPose ''b''
        (ingestPlane sampleThree (wallSample ''b'' (Vector3 0 0 0) 50)
          (onSessionEnd
            (ingestPlane sampleThree (wallSample ''a'' (Vector3 1 0 0) 0) (initializeXR True newPlaneTracker)))))
     = Some (Vector3 (8 / 10) 0 0)
   \<and> map_option pose_position (storedPose ''b''
        (ingestPlane sampleThree (wallSample ''b'' (Vector3 0 0 0) 50) (initializeXR True newPlaneTracker)))
     = Some (Vector3 0 0 0)"
  by (simp add: run_defs)

subsection \<open>One filter for all surfaces\<close>

lemma ingestPlane_poseFilter:
  assumes "planePose xrPlane = Some (pos, orient)"
  shows "poseFilter (ingestPlane three xrPlane st)
      = snd (filter_pf three (tFilter xrPlane) pos orient (poseFilter st))"
  using assms by (simp add: ingestPlane_def Let_def split: prod.splits option.splits)

lemma ingestPlane_storedPose:
  assumes "planePose xrPlane = Some (pos, orient)"
  shows "storedPose (resolvePlaneId xrPlane) (ingestPlane three xrPlane st)
      = Some \<lparr> pose_position = position (fst (filter_pf three (tFilter xrPlane) pos orient (poseFilter st))),
               pose_orientation = rotation (fst (filter_pf three (tFilter xrPlane) pos orient (poseFilter st))) \<rparr>"
  using assms
  by (simp add: ingestPlane_def storedPose_def Let_def update_conv' split: prod.splits option.splits)

text \<open>
  C1 (as amended). The tracker owns a single \<open>PoseFilter\<close>, used for every surface
  identifier. The smoothed pose stored when a sample is ingested is the output of that one
  filter on the state left by whichever sample was ingested before, under any identifier,
  and the filter state the sample leaves behind is what the next sample, under any
  identifier, is smoothed against; the identifier the sample carries plays no part in it.
  A sample without a pose leaves the tracker as it is.
\<close>

theorem single_pose_filter_for_all_surfaces:
  assumes "planePose xrPlane = Some (pos, orient)"
  shows "storedPose (resolvePlaneId xrPlane) (ingestPlane three xrPlane st)
      = Some \<lparr> pose_position = position (fst (filter_pf three (tFilter xrPlane) pos orient (poseFilter st))),
               pose_orientation = rotation (fst (filter_pf three (tFilter xrPlane) pos orient (poseFilter st))) \<rparr>
   \<and> poseFilter (ingestPlane three xrPlane st)
      = snd (filter_pf three (tFilter xrPlane) pos orient (poseFilter st))
   \<and> storedPose (resolvePlaneId (xrPlane\<lparr>xrPlaneId := Some i\<rparr>))
        (ingestPlane three (xrPlane\<lparr>xrPlaneId := Some i\<rparr>) st)
      = storedPose (resolvePlaneId xrPlane) (ingestPlane three xrPlane st)
   \<and> poseFilter (ingestPlane three (xrPlane\<lparr>xrPlaneId := Some i\<rparr>) st)
      = poseFilter (ingestPlane three xrPlane st)
   \<and> ingestPlane three (xrPlane\<lparr>planePose := None\<rparr>) st = st"
proof -
  have other: "planePose (xrPlane\<lparr>xrPlaneId := Some i\<rparr>) = Some (pos, orient)"
    using assms by simp
  have none: "ingestPlane three (xrPlane\<lparr>planePose := None\<rparr>) st = st"
    by (simp add: ingestPlane_def)
  show ?thesis
    using ingestPlane_storedPose [OF assms, of three st] ingestPlane_poseFilter [OF assms, of three st]
      ingestPlane_storedPose [OF other, of three st] ingestPlane_poseFilter [OF other, of three st] none
    by simp
qed

theorem single_pose_filter_for_all_surfaces_witness:
  "planePose (wallSample ''a'' (Vector3 0 0 0) 16) = Some (Vector3 0 0 0, Quaternion 0 0 0 1)
   \<and> map_option pose_position (storedPose ''a''
        (ingestPlane sampleThree (wallSample ''a'' (Vector3 0 0 0) 16)
          (ingestPlane sampleThree (wallSample ''b'' (Vector3 1 0 0) 0) (initializeXR True newPlaneTracker))))
     = Some (Vector3 (8 / 10) 0 0)
   \<and> lastPosition (poseFilter
        (ingestPlane sampleThree (wallSample ''a'' (Vector3 0 0 0) 16)
          (ingestPlane sampleThree (wallSample ''b'' (Vector3 1 0 0) 0) (initializeXR True newPlaneTracker))))
     = Some (Vector3 (8 / 10) 0 0)"
proof -
  let ?st = "ingestPlane sampleThree (wallSample ''b'' (Vector3 1 0 0) 0) (initializeXR True newPlaneTracker)"
  have pose: "planePose (wallSample ''a'' (Vector3 0 0 0) 16) = Some (Vector3 0 0 0, Quaternion 0 0 0 1)"
    by (simp add: wallSample_def)
  have ident: "resolvePlaneId (wallSample ''a'' (Vector3 0 0 0) 16) = ''a''"
    by (simp add: wallSample_def resolvePlaneId_def)
  have out: "position (fst (filter_pf sampleThree (tFilter (wallSample ''a'' (Vector3 0 0 0) 16))
      (Vector3 0 0 0) (Quaternion 0 0 0 1) (poseFilter ?st))) = Vector3 (8 / 10) 0 0"
    by (simp add: run_defs)
  from single_pose_filter_for_all_surfaces [OF pose, of sampleThree ?st]
  have "storedPose ''a'' (ingestPlane sampleThree (wallSample ''a'' (Vector3 0 0 0) 16) ?st)
      = Some \<lparr> pose_position = position (fst (filter_pf sampleThree (tFilter (wallSample ''a'' (Vector3 0 0 0) 16))
                   (Vector3 0 0 0) (Quaternion 0 0 0 1) (poseFilter ?st))),
               pose_orientation = rotation (fst (filter_pf sampleThree (tFilter (wallSample ''a'' (Vector3 0 0 0) 16))
                   (Vector3 0 0 0) (Quaternion 0 0 0 1) (poseFilter ?st))) \<rparr>"
    and "poseFilter (ingestPlane sampleThree (wallSample ''a'' (Vector3 0 0 0) 16) ?st)
      = snd (filter_pf sampleThree (tFilter (wallSample ''a'' (Vector3 0 0 0) 16))
          (Vector3 0 0 0) (Quaternion 0 0 0 1) (poseFilter ?st))"
    by (simp_all only: ident)
  then show ?thesis
    using pose out by (simp add: filter_pf_lastPosition)
qed

text \<open>
  C1 as first worded fails: with the same single sample for surface \<open>a\<close>, raw \<open>(0,0,0)\<close>,
  the pose stored for \<open>a\<close> is \<open>(0.8,0,0)\<close>, \<open>(4,0,0)\<close> or \<open>(0,0,0)\<close> depending on what was
  ingested for surface \<open>b\<close> just before.
\<close>

theorem surface_pose_depends_on_other_surfaces_counterexample:
  "map_option pose_position (storedPose ''a''
      (updatePlaneDetection sampleThree
         (planesFrame [wallSample ''b'' (Vector3 1 0 0) 0, wallSample ''a'' (Vector3 0 0 0) 16] 16)
         (initializeXR True newPlaneTracker)))
     = Some (Vector3 (8 / 10) 0 0)
   \<and> map_option pose_position (storedPose ''a''
      (updatePlaneDetection sampleThree
         (planesFrame [wallSample ''b'' (Vector3 5 0 0) 0, wallSample ''a'' (Vector3 0 0 0) 16] 16)
         (initializeXR True newPlaneTracker)))
     = Some (Vector3 4 0 0)
   \<and> map_option pose_position (storedPose ''a''
      (updatePlaneDetection sampleThree
         (planesFrame [wallSample ''a'' (Vector3 0 0 0) 16] 16)
         (initializeXR True newPlaneTracker)))
     = Some (Vector3 0 0 0)"
  by (simp add: run_defs)

subsection \<open>What the accessors hand out\<close>









section \<open>Facts about the placed-object map\<close>

lemma updateObject_absent:
  assumes "map_of (arObjects e) objectId = None"
  shows "updateObject objectId updates e = Inl (Error (''Object with ID '' @ objectId @ '' not found''))"
  using assms by (simp add: updateObject_def)

lemma updateObject_present:
  assumes "map_of (arObjects e) objectId = Some object"
  shows "updateObject objectId updates e =
     Inr (e\<lparr>arObjects := AList.update objectId (object ++ updates) (arObjects e),
            rendererCalls := rendererCalls e @
              [if getProp object ''type'' = Str ''frame'' then UpdateFrame (object ++ updates)
               else UpdateNeon (object ++ updates)]\<rparr>)"
  using assms by (simp add: updateObject_def Let_def)

lemma removeObject_absent:
  assumes "map_of (arObjects e) objectId = None"
  shows "removeObject objectId e = e"
  using assms by (simp add: removeObject_def)

lemma absent_after_removeObject: "map_of (arObjects (removeObject objectId e)) objectId = None"
  by (simp add: removeObject_def delete_conv' split: option.splits)

text \<open>
  C8. \<open>updateObject\<close> throws the "not found" error whenever the identifier is absent from
  the placed-object map, in particular right after \<open>removeObject\<close> of that identifier;
  otherwise it stores the shallow merge of the object and the changes under that identifier
  (each property named in the changes replaces the stored one, the others are kept).
  \<open>removeObject\<close> of an absent identifier, in particular a second removal, returns normally
  and leaves the engine unchanged.
\<close>

theorem update_absent_fails_remove_absent_is_noop:
  "(map_of (arObjects e) objectId = None \<longrightarrow>
        updateObject objectId updates e = Inl (Error (''Object with ID '' @ objectId @ '' not found'')))
   \<and> updateObject objectId updates (removeObject objectId e)
        = Inl (Error (''Object with ID '' @ objectId @ '' not found''))
   \<and> (\<forall>object. map_of (arObjects e) objectId = Some object \<longrightarrow>
        (\<exists>e'. updateObject objectId updates e = Inr e'
           \<and> map_of (arObjects e') objectId = Some (object ++ updates)
           \<and> (\<forall>name. (object ++ updates) name
                 = (case updates name of None \<Rightarrow> object name | Some v \<Rightarrow> Some v))))
   \<and> (map_of (arObjects e) objectId = None \<longrightarrow> removeObject objectId e = e)
   \<and> removeObject objectId (removeObject objectId e) = removeObject objectId e"
proof -
  have absent: "map_of (arObjects e) objectId = None \<longrightarrow>
        updateObject objectId updates e = Inl (Error (''Object with ID '' @ objectId @ '' not found''))"
    by (simp add: updateObject_absent)
  have removed: "updateObject objectId updates (removeObject objectId e)
        = Inl (Error (''Object with ID '' @ objectId @ '' not found''))"
    by (rule updateObject_absent [OF absent_after_removeObject])
  have present: "\<exists>e'. updateObject objectId updates e = Inr e'
           \<and> map_of (arObjects e') objectId = Some (object ++ updates)
           \<and> (\<forall>name. (object ++ updates) name
                 = (case updates name of None \<Rightarrow> object name | Some v \<Rightarrow> Some v))"
    if "map_of (arObjects e) objectId = Some object" for object
    by (simp add: updateObject_present [OF that] update_conv' map_add_def)
  have noop: "map_of (arObjects e) objectId = None \<longrightarrow> removeObject objectId e = e"
    by (simp add: removeObject_absent)
  have twice: "removeObject objectId (removeObject objectId e) = removeObject objectId e"
    by (rule removeObject_absent [OF absent_after_removeObject])
  show ?thesis
    using absent removed present noop twice by blast
qed

theorem update_absent_fails_remove_absent_is_noop_witness:
  "map_of (arObjects (engineWith ''frame_1'' ''neon_2'')) ''frame_9'' = None
   \<and> updateObject ''frame_9'' [''width'' \<mapsto> Num 1] (engineWith ''frame_1'' ''neon_2'')
       = Inl (Error ''Object with ID frame_9 not found'')
   \<and> removeObject ''frame_9'' (engineWith ''frame_1'' ''neon_2'') = engineWith ''frame_1'' ''neon_2''
   \<and> map_of (arObjects (engineWith ''frame_1'' ''neon_2'')) ''frame_1'' = Some (frameObject ''frame_1'')
   \<and> (\<exists>e'. updateObject ''frame_1'' [''width'' \<mapsto> Num 1] (engineWith ''frame_1'' ''neon_2'') = Inr e'
        \<and> map_of (arObjects e') ''frame_1'' = Some (frameObject ''frame_1'' ++ [''width'' \<mapsto> Num 1]))
   \<and> (frameObject ''frame_1'' ++ [''width'' \<mapsto> Num 1]) ''width'' = Some (Num 1)
   \<and> (frameObject ''frame_1'' ++ [''width'' \<mapsto> Num 1]) ''frameColor'' = Some (Str ''#8B4513'')"
proof -
  let ?e = "engineWith ''frame_1'' ''neon_2''"
  have absent: "map_of (arObjects ?e) ''frame_9'' = None"
    by (simp add: engineWith_def)
  have present: "map_of (arObjects ?e) ''frame_1'' = Some (frameObject ''frame_1'')"
    by (simp add: engineWith_def)
  from update_absent_fails_remove_absent_is_noop [of ?e "''frame_9''" "[''width'' \<mapsto> Num 1]"] absent
  have r1: "updateObject ''frame_9'' [''width'' \<mapsto> Num 1] ?e = Inl (Error ''Object with ID frame_9 not found'')"
    and r2: "removeObject ''frame_9'' ?e = ?e"
    by simp_all
  from update_absent_fails_remove_absent_is_noop [of ?e "''frame_1''" "[''width'' \<mapsto> Num 1]"] present
  have r3: "\<exists>e'. updateObject ''frame_1'' [''width'' \<mapsto> Num 1] ?e = Inr e'
        \<and> map_of (arObjects e') ''frame_1'' = Some (frameObject ''frame_1'' ++ [''width'' \<mapsto> Num 1])"
    by blast
  have r4: "(frameObject ''frame_1'' ++ [''width'' \<mapsto> Num 1]) ''width'' = Some (Num 1)"
    "(frameObject ''frame_1'' ++ [''width'' \<mapsto> Num 1]) ''frameColor'' = Some (Str ''#8B4513'')"
    by (simp_all add: frameObject_def)
  show ?thesis
    using absent present r1 r2 r3 r4 by blast
qed

text \<open>
  C10. When the identifier is present, \<open>updateObject\<close> keeps the keys of the placed-object
  map (same keys, same order) and every entry under another key; under the identifier it
  stores the merge, in which every property the changes name takes the value given there,
  with no property protected: the changes can replace the stored object's \<open>id\<close> and \<open>type\<close>
  while the object stays under its old key.
\<close>

theorem update_keeps_keys_and_other_entries:
  assumes "map_of (arObjects e) objectId = Some object"
  shows "\<exists>e'. updateObject objectId updates e = Inr e'
     \<and> map fst (arObjects e') = map fst (arObjects e)
     \<and> (\<forall>k. k \<noteq> objectId \<longrightarrow> map_of (arObjects e') k = map_of (arObjects e) k)
     \<and> (\<exists>stored. map_of (arObjects e') objectId = Some stored
          \<and> (\<forall>name v. updates name = Some v \<longrightarrow> stored name = Some v)
          \<and> (\<forall>name. updates name = None \<longrightarrow> stored name = object name)
          \<and> (\<forall>v. updates ''id'' = Some v \<longrightarrow> getProp stored ''id'' = v)
          \<and> (\<forall>v. updates ''type'' = Some v \<longrightarrow> getProp stored ''type'' = v))"
proof -
  let ?e' = "e\<lparr>arObjects := AList.update objectId (object ++ updates) (arObjects e),
            rendererCalls := rendererCalls e @
              [if getProp object ''type'' = Str ''frame'' then UpdateFrame (object ++ updates)
               else UpdateNeon (object ++ updates)]\<rparr>"
  have res: "updateObject objectId updates e = Inr ?e'"
    by (rule updateObject_present [OF assms])
  have "objectId \<in> set (map fst (arObjects e))"
    using assms by (metis map_of_eq_None_iff option.distinct(1) set_map)
  then have keys: "map fst (arObjects ?e') = map fst (arObjects e)"
    by (simp add: update_keys)
  have others: "\<forall>k. k \<noteq> objectId \<longrightarrow> map_of (arObjects ?e') k = map_of (arObjects e) k"
    by (simp add: update_conv')
  have stored: "map_of (arObjects ?e') objectId = Some (object ++ updates)"
    by (simp add: update_conv')
  have merged: "(\<forall>name v. updates name = Some v \<longrightarrow> (object ++ updates) name = Some v)
      \<and> (\<forall>name. updates name = None \<longrightarrow> (object ++ updates) name = object name)
      \<and> (\<forall>v. updates ''id'' = Some v \<longrightarrow> getProp (object ++ updates) ''id'' = v)
      \<and> (\<forall>v. updates ''type'' = Some v \<longrightarrow> getProp (object ++ updates) ''type'' = v)"
    by (simp add: map_add_def getProp_def)
  show ?thesis
    using res keys others stored merged by blast
qed

theorem update_keeps_keys_and_other_entries_witness:
  "map_of (arObjects (engineWith ''frame_1'' ''neon_2'')) ''frame_1'' = Some (frameObject ''frame_1'')
   \<and> (\<exists>e'. updateObject ''frame_1'' [''id'' \<mapsto> Str ''other'', ''type'' \<mapsto> Str ''neon'']
              (engineWith ''frame_1'' ''neon_2'') = Inr e'
        \<and> map fst (arObjects e') = [''frame_1'', ''neon_2'']
        \<and> map_of (arObjects e') ''neon_2'' = Some (neonObject ''neon_2'')
        \<and> (\<exists>stored. map_of (arObjects e') ''frame_1'' = Some stored
             \<and> getProp stored ''id'' = Str ''other'' \<and> getProp stored ''type'' = Str ''neon''))"
proof -
  let ?e = "engineWith ''frame_1'' ''neon_2''"
  let ?u = "[''id'' \<mapsto> Str ''other'', ''type'' \<mapsto> Str ''neon'']"
  have present: "map_of (arObjects ?e) ''frame_1'' = Some (frameObject ''frame_1'')"
    by (simp add: engineWith_def)
  have keys: "map fst (arObjects ?e) = [''frame_1'', ''neon_2'']"
    by (simp add: engineWith_def)
  have other: "map_of (arObjects ?e) ''neon_2'' = Some (neonObject ''neon_2'')"
    by (simp add: engineWith_def)
  have u: "?u ''id'' = Some (Str ''other'')" "?u ''type'' = Some (Str ''neon'')"
    by simp_all
  have ne: "''neon_2'' \<noteq> ''frame_1''" by simp
  from update_keeps_keys_and_other_entries [OF present, of ?u]
  obtain e' stored where e': "updateObject ''frame_1'' ?u ?e = Inr e'"
      "map fst (arObjects e') = map fst (arObjects ?e)"
      "\<forall>k. k \<noteq> ''frame_1'' \<longrightarrow> map_of (arObjects e') k = map_of (arObjects ?e) k"
      "map_of (arObjects e') ''frame_1'' = Some stored"
      "\<forall>v. ?u ''id'' = Some v \<longrightarrow> getProp stored ''id'' = v"
      "\<forall>v. ?u ''type'' = Some v \<longrightarrow> getProp stored ''type'' = v"
    by blast
  have "getProp stored ''id'' = Str ''other''" "getProp stored ''type'' = Str ''neon''"
    using e'(5,6) u by blast+
  moreover have "map_of (arObjects e') ''neon_2'' = Some (neonObject ''neon_2'')"
    using e'(3) ne other by metis
  ultimately show ?thesis
    using present e'(1,2,4) keys by metis
qed

section \<open>Stability over a run of filter calls\<close>






















text \<open>
  The start time is tested for truthiness, so a recorded start time of exactly 0 is taken
  for a missing one and the window starts again at the current call. The clock of
  \<open>performance.now()\<close> counts up from the page's time origin, and the statement below is
  for runs whose first reading is above 0.
\<close>

lemma start_time_zero_is_restarted:
  assumes "d < maxJitterThreshold (options pf)" and "velocityHistory pf \<noteq> []"
    and "avgVelocity pf < maxJitterThreshold (options pf)"
    and "stabilizationStartTime pf = Some 0"
  shows "stabilizationStartTime (updateStabilityState d now pf) = Some now"
  using assms by (simp add: updateStabilityState_def falsyTime_def Let_def)





end
